theory Spec2Isabelle
  imports Main "HOL-Library.Sublist" "HOL-Library.Monad_Syntax"
begin

section \<open>Python strings\<close>

text \<open>
  A Python \<^verbatim>\<open>str\<close> is a sequence of code points. It is modelled as a \<^typ>\<open>string\<close> whose
  characters are the code points below 256, so \<^verbatim>\<open>len\<close> is \<^const>\<open>length\<close> and every
  character class below is given by Python's own table on that range. The bullet marker
  U+2022 of \<^verbatim>\<open>bullet_pattern\<close> lies outside the range: a bullet line of the model begins
  with the hyphen, the other alternative of the class.
\<close>

definition is_space :: "char \<Rightarrow> bool" where
  \<comment> \<open>\<^verbatim>\<open>\s\<close> of \<^verbatim>\<open>re\<close> on \<^verbatim>\<open>str\<close>, and the characters \<^verbatim>\<open>str.strip()\<close> removes\<close>
  "is_space c =
     (let n = (of_char c :: nat)
      in (9 \<le> n \<and> n \<le> 13) \<or> (28 \<le> n \<and> n \<le> 32) \<or> n = 133 \<or> n = 160)"

definition is_word :: "char \<Rightarrow> bool" where
  \<comment> \<open>\<^verbatim>\<open>\w\<close> of \<^verbatim>\<open>re\<close> on \<^verbatim>\<open>str\<close>: \<^verbatim>\<open>str.isalnum()\<close> or the underscore\<close>
  "is_word c =
     (let n = (of_char c :: nat)
      in (48 \<le> n \<and> n \<le> 57) \<or> (65 \<le> n \<and> n \<le> 90) \<or> n = 95 \<or> (97 \<le> n \<and> n \<le> 122)
         \<or> n = 170 \<or> n = 178 \<or> n = 179 \<or> n = 181 \<or> n = 185 \<or> n = 186
         \<or> (188 \<le> n \<and> n \<le> 190) \<or> (192 \<le> n \<and> n \<le> 214) \<or> (216 \<le> n \<and> n \<le> 246)
         \<or> 248 \<le> n)"

definition is_id_char :: "char \<Rightarrow> bool" where
  \<comment> \<open>the class \<^verbatim>\<open>[a-zA-Z0-9_-]\<close>\<close>
  "is_id_char c =
     (let n = (of_char c :: nat)
      in (97 \<le> n \<and> n \<le> 122) \<or> (65 \<le> n \<and> n \<le> 90) \<or> (48 \<le> n \<and> n \<le> 57)
         \<or> n = 95 \<or> n = 45)"

definition nl :: char where
  "nl = CHR 0x0A"

definition strip :: "string \<Rightarrow> string" where
  \<comment> \<open>\<^verbatim>\<open>str.strip()\<close>\<close>
  "strip s = rev (dropWhile is_space (rev (dropWhile is_space s)))"

function py_replace :: "string \<Rightarrow> string \<Rightarrow> string \<Rightarrow> string" where
  \<comment> \<open>\<^verbatim>\<open>s.replace(old, new)\<close>: every occurrence, leftmost first, without overlap\<close>
  "py_replace s old new =
     (if old = [] then new @ concat (map (\<lambda>c. c # new) s)
      else if prefix old s then new @ py_replace (drop (length old) s) old new
      else (case s of [] \<Rightarrow> [] | c # cs \<Rightarrow> c # py_replace cs old new))"
  by pat_completeness auto
termination
  by (relation "measure (\<lambda>(s, old, new). length s)") (auto simp: prefix_def)

declare py_replace.simps [simp del]

function py_split :: "string \<Rightarrow> string \<Rightarrow> string list" where
  \<comment> \<open>\<^verbatim>\<open>s.split(sep)\<close> for a non-empty separator (an empty one raises \<^verbatim>\<open>ValueError\<close>;
      the source passes two literals)\<close>
  "py_split s sep =
     (if sep \<noteq> [] \<and> prefix sep s then [] # py_split (drop (length sep) s) sep
      else (case s of [] \<Rightarrow> [[]]
            | c # cs \<Rightarrow> (case py_split cs sep of [] \<Rightarrow> [[c]] | p # ps \<Rightarrow> (c # p) # ps)))"
  by pat_completeness auto
termination
  by (relation "measure (\<lambda>(s, sep). length s)") (auto simp: prefix_def)

declare py_split.simps [simp del]

fun join :: "string \<Rightarrow> string list \<Rightarrow> string" where
  \<comment> \<open>\<^verbatim>\<open>sep.join(parts)\<close>\<close>
  "join sep [] = []"
| "join sep [p] = p"
| "join sep (p # q # ps) = p @ sep @ join sep (q # ps)"

section \<open>Values of the content document\<close>

text \<open>
  What \<^verbatim>\<open>yaml.safe_load\<close> returns: \<^verbatim>\<open>None\<close>, booleans, integers, strings, lists and
  mappings. A mapping keeps its keys in document order, as a Python \<^verbatim>\<open>dict\<close> does, and
  is an association list read with \<^const>\<open>map_of\<close>; its keys are strings. Floating-point
  numbers and timestamps are left out. A call that raises in Python (\<^verbatim>\<open>AttributeError\<close>,
  \<^verbatim>\<open>TypeError\<close>) has the result \<^const>\<open>None\<close>.
\<close>

datatype yaml =
    YNull
  | YBool bool
  | YInt int
  | YStr string
  | YList "yaml list"
  | YDict "(string \<times> yaml) list"

type_synonym pydict = "(string \<times> yaml) list"

fun truthy :: "yaml \<Rightarrow> bool" where
  "truthy YNull = False"
| "truthy (YBool b) = b"
| "truthy (YInt i) = (i \<noteq> 0)"
| "truthy (YStr s) = (s \<noteq> [])"
| "truthy (YList xs) = (xs \<noteq> [])"
| "truthy (YDict d) = (d \<noteq> [])"

fun is_dict :: "yaml \<Rightarrow> bool" where
  \<comment> \<open>\<^verbatim>\<open>isinstance(v, dict)\<close>\<close>
  "is_dict (YDict d) = True"
| "is_dict v = False"

fun is_list_or_dict :: "yaml \<Rightarrow> bool" where
  \<comment> \<open>\<^verbatim>\<open>isinstance(v, (list, dict))\<close>\<close>
  "is_list_or_dict (YList xs) = True"
| "is_list_or_dict (YDict d) = True"
| "is_list_or_dict v = False"

definition dict_get :: "pydict \<Rightarrow> string \<Rightarrow> yaml \<Rightarrow> yaml" where
  \<comment> \<open>\<^verbatim>\<open>d.get(key, default)\<close> on a \<^verbatim>\<open>dict\<close>\<close>
  "dict_get d k dflt = (case map_of d k of Some v \<Rightarrow> v | None \<Rightarrow> dflt)"

fun py_get :: "yaml \<Rightarrow> string \<Rightarrow> yaml \<Rightarrow> yaml option" where
  \<comment> \<open>\<^verbatim>\<open>v.get(key, default)\<close> on any value: only a \<^verbatim>\<open>dict\<close> has the method\<close>
  "py_get (YDict d) k dflt = Some (dict_get d k dflt)"
| "py_get v k dflt = None"

fun py_iter :: "yaml \<Rightarrow> yaml list option" where
  \<comment> \<open>the values \<^verbatim>\<open>for x in v\<close> runs through\<close>
  "py_iter (YList xs) = Some xs"
| "py_iter (YDict d) = Some (map (\<lambda>kv. YStr (fst kv)) d)"
| "py_iter (YStr s) = Some (map (\<lambda>c. YStr [c]) s)"
| "py_iter v = None"

subsection \<open>\<^verbatim>\<open>str(v)\<close>\<close>

definition digit_char :: "nat \<Rightarrow> char" where
  "digit_char d = char_of (48 + d)"

fun show_nat :: "nat \<Rightarrow> string" where
  "show_nat n = (if n < 10 then [digit_char n] else show_nat (n div 10) @ [digit_char (n mod 10)])"

declare show_nat.simps [simp del]

definition show_int :: "int \<Rightarrow> string" where
  "show_int i = (if i < 0 then CHR ''-'' # show_nat (nat (- i)) else show_nat (nat i))"

definition hex_char :: "nat \<Rightarrow> char" where
  "hex_char d = (if d < 10 then char_of (48 + d) else char_of (87 + d))"

definition printable :: "char \<Rightarrow> bool" where
  \<comment> \<open>\<^verbatim>\<open>str.isprintable()\<close> below 256\<close>
  "printable c =
     (let n = (of_char c :: nat) in \<not> (n < 32 \<or> (127 \<le> n \<and> n \<le> 160) \<or> n = 173))"

definition repr_char :: "char \<Rightarrow> char \<Rightarrow> string" where
  "repr_char q c =
     (if c = q \<or> c = CHR 0x5C then [CHR 0x5C, c]
      else if c = CHR 0x09 then [CHR 0x5C, CHR ''t'']
      else if c = CHR 0x0A then [CHR 0x5C, CHR ''n'']
      else if c = CHR 0x0D then [CHR 0x5C, CHR ''r'']
      else if printable c then [c]
      else [CHR 0x5C, CHR ''x'', hex_char (of_char c div 16), hex_char (of_char c mod 16)])"

definition repr_str :: "string \<Rightarrow> string" where
  \<comment> \<open>\<^verbatim>\<open>repr(s)\<close> of a \<^verbatim>\<open>str\<close>: double quotes only when \<^verbatim>\<open>s\<close> has a single quote and no double one\<close>
  "repr_str s =
     (let q = (if CHR 0x27 \<in> set s \<and> CHR 0x22 \<notin> set s then CHR 0x22 else CHR 0x27)
      in q # concat (map (repr_char q) s) @ [q])"

fun py_repr :: "yaml \<Rightarrow> string" where
  "py_repr YNull = ''None''"
| "py_repr (YBool b) = (if b then ''True'' else ''False'')"
| "py_repr (YInt i) = show_int i"
| "py_repr (YStr s) = repr_str s"
| "py_repr (YList xs) = ''['' @ join '', '' (map py_repr xs) @ '']''"
| "py_repr (YDict d) =
     ''{'' @ join '', '' (map (\<lambda>kv. repr_str (fst kv) @ '': '' @ py_repr (snd kv)) d) @ ''}''"

fun py_str :: "yaml \<Rightarrow> string" where
  "py_str (YStr s) = s"
| "py_str v = py_repr v"

section \<open>Regular expressions\<close>

text \<open>
  A compiled pattern is a function that tries the pattern at the head of a string and
  returns the captured groups with the text left after the match. Every repetition in
  the source's patterns runs over a character class that excludes the character the
  pattern needs next, so the longest run is the only one that can be continued and the
  greedy run is taken without backtracking. No pattern of the source matches the empty
  string.
\<close>

fun lit :: "string \<Rightarrow> string \<Rightarrow> string option" where
  \<comment> \<open>a literal: the text after it\<close>
  "lit [] s = Some s"
| "lit (p # ps) [] = None"
| "lit (p # ps) (c # cs) = (if p = c then lit ps cs else None)"

definition many :: "(char \<Rightarrow> bool) \<Rightarrow> string \<Rightarrow> (string \<times> string) option" where
  \<comment> \<open>\<^verbatim>\<open>[class]*\<close>: the run and the text after it\<close>
  "many P s = Some (takeWhile P s, dropWhile P s)"

definition many1 :: "(char \<Rightarrow> bool) \<Rightarrow> string \<Rightarrow> (string \<times> string) option" where
  \<comment> \<open>\<^verbatim>\<open>[class]+\<close>\<close>
  "many1 P s = (if takeWhile P s = [] then None else Some (takeWhile P s, dropWhile P s))"

fun lazy_until :: "(string \<Rightarrow> string option) \<Rightarrow> string \<Rightarrow> (string \<times> string) option" where
  \<comment> \<open>\<^verbatim>\<open>(.*?)\<close> under \<^verbatim>\<open>re.DOTALL\<close> followed by the pattern \<open>p\<close>: the shortest text after which
      \<open>p\<close> matches, and the text left after \<open>p\<close>\<close>
  "lazy_until p [] = (case p [] of Some r \<Rightarrow> Some ([], r) | None \<Rightarrow> None)"
| "lazy_until p (c # cs) =
     (case p (c # cs) of Some r \<Rightarrow> Some ([], r)
      | None \<Rightarrow> (case lazy_until p cs of Some (b, r) \<Rightarrow> Some (c # b, r) | None \<Rightarrow> None))"

fun re_search :: "(string \<Rightarrow> ('g \<times> string) option) \<Rightarrow> string \<Rightarrow> 'g option" where
  \<comment> \<open>\<^verbatim>\<open>pattern.search(s)\<close>: the groups of the leftmost match\<close>
  "re_search pat [] = (case pat [] of Some (g, r) \<Rightarrow> Some g | None \<Rightarrow> None)"
| "re_search pat (c # cs) =
     (case pat (c # cs) of Some (g, r) \<Rightarrow> Some g | None \<Rightarrow> re_search pat cs)"

function re_scan :: "(string \<Rightarrow> ('g \<times> string) option) \<Rightarrow> string \<Rightarrow> (char + 'g) list" where
  \<comment> \<open>the scan that \<^verbatim>\<open>pattern.sub\<close> makes: the groups of the leftmost matches without
      overlap, and between them the characters no match covers. The middle branch is an
      empty match, which is reported before the next character is copied.\<close>
  "re_scan pat s =
     (case pat s of
        Some (g, rest) \<Rightarrow>
          if length rest < length s then Inr g # re_scan pat rest
          else (case s of [] \<Rightarrow> [Inr g] | c # cs \<Rightarrow> Inr g # Inl c # re_scan pat cs)
      | None \<Rightarrow> (case s of [] \<Rightarrow> [] | c # cs \<Rightarrow> Inl c # re_scan pat cs))"
  by pat_completeness auto
termination
  by (relation "measure (\<lambda>(pat, s). length s)") auto

declare re_scan.simps [simp del]

definition re_sub :: "(string \<Rightarrow> ('g \<times> string) option) \<Rightarrow> ('g \<Rightarrow> string) \<Rightarrow> string \<Rightarrow> string" where
  \<comment> \<open>\<^verbatim>\<open>pattern.sub(repl, s)\<close>\<close>
  "re_sub pat repl s = concat (map (case_sum (\<lambda>c. [c]) repl) (re_scan pat s))"

definition re_sub_opt ::
  "(string \<Rightarrow> ('g \<times> string) option) \<Rightarrow> ('g \<Rightarrow> string option) \<Rightarrow> string \<Rightarrow> string option" where
  \<comment> \<open>\<^verbatim>\<open>pattern.sub(repl, s)\<close> with a function \<open>repl\<close> that may raise\<close>
  "re_sub_opt pat repl s =
     map_option concat (those (map (case_sum (\<lambda>c. Some [c]) repl) (re_scan pat s)))"

section \<open>Markdown to HTML\<close>

definition link_pattern :: "string \<Rightarrow> ((string \<times> string) \<times> string) option" where
  \<comment> \<open>\<^verbatim>\<open>\[([^\]]+)\]\(([^)]+)\)\<close>\<close>
  "link_pattern s = do {
     r \<leftarrow> lit ''['' s;
     (label, r) \<leftarrow> many1 (\<lambda>c. c \<noteq> CHR '']'') r;
     r \<leftarrow> lit '']('' r;
     (target, r) \<leftarrow> many1 (\<lambda>c. c \<noteq> CHR '')'') r;
     r \<leftarrow> lit '')'' r;
     Some ((label, target), r)
   }"

definition link_repl :: "string \<times> string \<Rightarrow> string" where
  \<comment> \<open>the replacement template: group 2 is the target, group 1 the label\<close>
  \<open>link_repl g = ''<a href="'' @ snd g @ ''" target="_blank">'' @ fst g @ ''</a>''\<close>

definition bullet_pattern :: "string \<Rightarrow> (string \<times> string) option" where
  \<comment> \<open>\<^verbatim>\<open>^[\<bullet>\-]\s+\<close> tried at the start of a line: the text matched and the text after it\<close>
  "bullet_pattern s = do {
     r \<leftarrow> lit ''-'' s;
     (ws, r) \<leftarrow> many1 is_space r;
     Some (CHR ''-'' # ws, r)
   }"

definition bullet_match :: "string \<Rightarrow> bool" where
  \<comment> \<open>\<^verbatim>\<open>bullet_pattern.match(s)\<close> as a truth value\<close>
  "bullet_match s = (bullet_pattern s \<noteq> None)"

function bullet_sub :: "bool \<Rightarrow> string \<Rightarrow> string" where
  \<comment> \<open>\<^verbatim>\<open>bullet_pattern.sub('', s)\<close> under \<^verbatim>\<open>re.MULTILINE\<close>; \<open>bol\<close> says that the position is
      the start of the string or follows a newline\<close>
  "bullet_sub bol s =
     (case (if bol then bullet_pattern s else None) of
        Some (m, rest) \<Rightarrow>
          if length rest < length s then bullet_sub (last m = nl) rest
          else (case s of [] \<Rightarrow> [] | c # cs \<Rightarrow> c # bullet_sub (c = nl) cs)
      | None \<Rightarrow> (case s of [] \<Rightarrow> [] | c # cs \<Rightarrow> c # bullet_sub (c = nl) cs))"
  by pat_completeness auto
termination
  by (relation "measure (\<lambda>(bol, s). length s)") auto

declare bullet_sub.simps [simp del]

definition ul :: "string list \<Rightarrow> string" where
  \<comment> \<open>\<^verbatim>\<open>'<ul>' + ''.join(f'<li>{item}</li>' for item in items) + '</ul>'\<close>\<close>
  "ul items = ''<ul>'' @ concat (map (\<lambda>item. ''<li>'' @ item @ ''</li>'') items) @ ''</ul>''"

record mixed_state =
  result :: "string list"
  in_list :: bool
  list_items :: "string list"

definition mixed_step :: "mixed_state \<Rightarrow> string \<Rightarrow> mixed_state" where
  \<comment> \<open>the body of the loop over the lines of a mixed paragraph\<close>
  "mixed_step st line0 =
     (let line = strip line0 in
      if bullet_match line
      then st\<lparr>in_list := True, list_items := list_items st @ [bullet_sub True line]\<rparr>
      else
        (let st1 = (if in_list st
                    then st\<lparr>result := result st @ [ul (list_items st)],
                            list_items := [], in_list := False\<rparr>
                    else st)
         in if line \<noteq> [] then st1\<lparr>result := result st1 @ [''<p>'' @ line @ ''</p>'']\<rparr>
            else st1))"

definition mixed_html :: "string list \<Rightarrow> string" where
  \<comment> \<open>the branch for mixed content: the loop, the last flush, the join\<close>
  "mixed_html lines =
     (let st = foldl mixed_step \<lparr>result = [], in_list = False, list_items = []\<rparr> lines;
          res = (if list_items st \<noteq> [] then result st @ [ul (list_items st)] else result st)
      in concat res)"

definition para_html :: "string \<Rightarrow> string" where
  \<comment> \<open>the body of the loop over the paragraphs, for a stripped non-empty paragraph\<close>
  "para_html para =
     (let lines = py_split para [nl];
          bullet_lines = filter (\<lambda>l. bullet_match (strip l)) lines
      in if bullet_lines \<noteq> [] \<and> length bullet_lines = length lines
         then ul (map (\<lambda>l. bullet_sub True (strip l)) lines)
         else if bullet_lines \<noteq> [] then mixed_html lines
         else ''<p>'' @ join ''<br>'' (map strip (filter (\<lambda>l. strip l \<noteq> []) lines)) @ ''</p>'')"

definition markdown_to_html :: "string \<Rightarrow> string" where
  "markdown_to_html text =
     (if text = [] then []
      else
        (let text1 = re_sub link_pattern link_repl text;
             paragraphs = py_split (strip text1) [nl, nl];
             html_parts = map para_html (filter (\<lambda>para. para \<noteq> []) (map strip paragraphs))
         in join [nl] html_parts))"

fun markdown_to_html_any :: "yaml \<Rightarrow> string option" where
  \<comment> \<open>the same function on whatever the caller passes: a falsy value gives the empty
      string, any other value that is not a \<^verbatim>\<open>str\<close> raises in \<^verbatim>\<open>link_pattern.sub\<close>\<close>
  "markdown_to_html_any (YStr s) = Some (markdown_to_html s)"
| "markdown_to_html_any v = (if truthy v then None else Some [])"

section \<open>YouTube identifier\<close>

definition id_token :: "string \<Rightarrow> (string \<times> string) option" where
  \<comment> \<open>\<^verbatim>\<open>([a-zA-Z0-9_-]{11})\<close>\<close>
  "id_token s =
     (if length (take 11 s) = 11 \<and> list_all is_id_char (take 11 s)
      then Some (take 11 s, drop 11 s) else None)"

definition yt_prefixes :: "string list" where
  \<comment> \<open>the alternatives of the non-capturing group, in the order they are tried\<close>
  "yt_prefixes = [''youtube.com/watch?v='', ''youtu.be/'', ''youtube.com/embed/'']"

fun first_alt :: "string list \<Rightarrow> string \<Rightarrow> (string \<times> string) option" where
  \<comment> \<open>the first alternative after which the rest of the pattern matches\<close>
  "first_alt [] s = None"
| "first_alt (p # ps) s =
     (case (case lit p s of Some r \<Rightarrow> id_token r | None \<Rightarrow> None) of
        Some m \<Rightarrow> Some m
      | None \<Rightarrow> first_alt ps s)"

definition YOUTUBE_PATTERN :: "string \<Rightarrow> (string \<times> string) option" where
  \<comment> \<open>\<^verbatim>\<open>(?:youtube\.com/watch\?v=|youtu\.be/|youtube\.com/embed/)([a-zA-Z0-9_-]{11})\<close>\<close>
  "YOUTUBE_PATTERN s = first_alt yt_prefixes s"

definition extract_youtube_id :: "string \<Rightarrow> string" where
  "extract_youtube_id url =
     (case re_search YOUTUBE_PATTERN url of Some g \<Rightarrow> g | None \<Rightarrow> [])"

fun extract_youtube_id_any :: "yaml \<Rightarrow> string option" where
  \<comment> \<open>\<^verbatim>\<open>search\<close> raises \<^verbatim>\<open>TypeError\<close> on a value that is not a \<^verbatim>\<open>str\<close>\<close>
  "extract_youtube_id_any (YStr url) = Some (extract_youtube_id url)"
| "extract_youtube_id_any v = None"

section \<open>Template rendering\<close>

definition for_close :: "string \<Rightarrow> string option" where
  \<comment> \<open>\<^verbatim>\<open>\{%\s*endfor\s*%\}\<close>\<close>
  "for_close s = do {
     r \<leftarrow> lit ''{%'' s;
     (ws, r) \<leftarrow> many is_space r;
     r \<leftarrow> lit ''endfor'' r;
     (ws, r) \<leftarrow> many is_space r;
     lit ''%}'' r
   }"

definition for_pattern :: "string \<Rightarrow> ((string \<times> string \<times> string) \<times> string) option" where
  \<comment> \<open>\<^verbatim>\<open>\{%\s*for\s+(\w+)\s+in\s+(\w+)\s*%\}(.*?)\{%\s*endfor\s*%\}\<close> under \<^verbatim>\<open>re.DOTALL\<close>\<close>
  "for_pattern s = do {
     r \<leftarrow> lit ''{%'' s;
     (ws, r) \<leftarrow> many is_space r;
     r \<leftarrow> lit ''for'' r;
     (ws, r) \<leftarrow> many1 is_space r;
     (var_name, r) \<leftarrow> many1 is_word r;
     (ws, r) \<leftarrow> many1 is_space r;
     r \<leftarrow> lit ''in'' r;
     (ws, r) \<leftarrow> many1 is_space r;
     (list_name, r) \<leftarrow> many1 is_word r;
     (ws, r) \<leftarrow> many is_space r;
     r \<leftarrow> lit ''%}'' r;
     (body, r) \<leftarrow> lazy_until for_close r;
     Some ((var_name, list_name, body), r)
   }"

definition item_ref :: "string \<Rightarrow> string \<Rightarrow> string" where
  \<comment> \<open>\<^verbatim>\<open>f'{{{{ {var_name}.{key} }}}}'\<close>\<close>
  "item_ref var_name key = ''{{ '' @ var_name @ ''.'' @ key @ '' }}''"

fun item_body :: "string \<Rightarrow> string \<Rightarrow> yaml \<Rightarrow> string option" where
  \<comment> \<open>the inner loop over \<^verbatim>\<open>item.items()\<close>, which only a \<^verbatim>\<open>dict\<close> has\<close>
  "item_body var_name body (YDict d) =
     Some (foldl (\<lambda>b kv. py_replace b (item_ref var_name (fst kv)) (py_str (snd kv))) body d)"
| "item_body var_name body v = None"

definition replace_for :: "pydict \<Rightarrow> string \<times> string \<times> string \<Rightarrow> string option" where
  "replace_for context m =
     (case m of (var_name, list_name, body) \<Rightarrow>
        (let items = dict_get context list_name (YList []) in
         if \<not> truthy items then Some []
         else do {
           its \<leftarrow> py_iter items;
           rendered_items \<leftarrow> those (map (item_body var_name body) its);
           Some (concat rendered_items)
         }))"

definition quote :: char where
  "quote = CHR 0x27"

definition cond_pattern ::
  "string \<Rightarrow> ((string \<times> string \<times> string \<times> string) \<times> string) option" where
  \<comment> \<open>\<^verbatim>\<open>\{\{\s*'([^']+)'\s+if\s+(\w+)\s*==\s*'([^']+)'\s+else\s*'([^']*)'\s*\}\}\<close>\<close>
  "cond_pattern s = do {
     r \<leftarrow> lit ''{{'' s;
     (ws, r) \<leftarrow> many is_space r;
     r \<leftarrow> lit [quote] r;
     (val_true, r) \<leftarrow> many1 (\<lambda>c. c \<noteq> quote) r;
     r \<leftarrow> lit [quote] r;
     (ws, r) \<leftarrow> many1 is_space r;
     r \<leftarrow> lit ''if'' r;
     (ws, r) \<leftarrow> many1 is_space r;
     (var, r) \<leftarrow> many1 is_word r;
     (ws, r) \<leftarrow> many is_space r;
     r \<leftarrow> lit ''=='' r;
     (ws, r) \<leftarrow> many is_space r;
     r \<leftarrow> lit [quote] r;
     (check_val, r) \<leftarrow> many1 (\<lambda>c. c \<noteq> quote) r;
     r \<leftarrow> lit [quote] r;
     (ws, r) \<leftarrow> many1 is_space r;
     r \<leftarrow> lit ''else'' r;
     (ws, r) \<leftarrow> many is_space r;
     r \<leftarrow> lit [quote] r;
     (val_false, r) \<leftarrow> many (\<lambda>c. c \<noteq> quote) r;
     r \<leftarrow> lit [quote] r;
     (ws, r) \<leftarrow> many is_space r;
     r \<leftarrow> lit ''}}'' r;
     Some ((val_true, var, check_val, val_false), r)
   }"

definition replace_cond :: "pydict \<Rightarrow> string \<times> string \<times> string \<times> string \<Rightarrow> string" where
  \<comment> \<open>\<^verbatim>\<open>context.get(var) == check_val\<close> holds for the string \<^verbatim>\<open>check_val\<close> itself only\<close>
  "replace_cond context m =
     (case m of (val_true, var, check_val, val_false) \<Rightarrow>
        if dict_get context var YNull = YStr check_val then val_true else val_false)"

definition var_ref :: "string \<Rightarrow> string" where
  \<comment> \<open>\<^verbatim>\<open>f'{{{{ {key} }}}}'\<close>\<close>
  "var_ref key = ''{{ '' @ key @ '' }}''"

definition replace_vars :: "pydict \<Rightarrow> string \<Rightarrow> string" where
  \<comment> \<open>the loop over \<^verbatim>\<open>context.items()\<close>, in the order of the entries\<close>
  "replace_vars context s =
     foldl (\<lambda>res kv. if \<not> is_list_or_dict (snd kv)
                      then py_replace res (var_ref (fst kv)) (py_str (snd kv)) else res)
       s context"

definition render_template :: "string \<Rightarrow> pydict \<Rightarrow> string option" where
  "render_template template context = do {
     res \<leftarrow> re_sub_opt for_pattern (replace_for context) template;
     Some (replace_vars context (re_sub cond_pattern (replace_cond context) res))
   }"

section \<open>Context builder\<close>

definition get_text :: "yaml \<Rightarrow> string \<Rightarrow> string \<Rightarrow> yaml option" where
  "get_text obj key lang = do {
     value \<leftarrow> py_get obj key (YDict []);
     Some (case value of
             YDict m \<Rightarrow> dict_get m lang (dict_get m ''fr'' (YStr []))
           | _ \<Rightarrow> YStr (py_str value))
   }"

definition nav_labels :: "(string \<times> (string \<times> string) list) list" where
  "nav_labels =
     [(''fr'', [(''recherche'', ''Recherche''), (''medias'', ''M'' @ [CHR 0xE9] @ ''dias''),
               (''oiseaux'', ''Photos''), (''scroll'', ''D'' @ [CHR 0xE9] @ ''filer''),
               (''gallery'', ''Voir la galerie'')]),
      (''en'', [(''recherche'', ''Research''), (''medias'', ''Media''),
               (''oiseaux'', ''Photos''), (''scroll'', ''Scroll''),
               (''gallery'', ''View gallery'')])]"

definition label :: "(string \<times> string) list \<Rightarrow> string \<Rightarrow> yaml option" where
  \<comment> \<open>\<^verbatim>\<open>labels[key]\<close>, a \<^verbatim>\<open>KeyError\<close> on a missing key\<close>
  "label labels key = map_option YStr (map_of labels key)"

fun strip_any :: "yaml \<Rightarrow> yaml option" where
  \<comment> \<open>\<^verbatim>\<open>v.strip()\<close>: only a \<^verbatim>\<open>str\<close> has the method\<close>
  "strip_any (YStr s) = Some (YStr (strip s))"
| "strip_any v = None"

fun replace_any :: "yaml \<Rightarrow> string \<Rightarrow> string \<Rightarrow> yaml option" where
  \<comment> \<open>\<^verbatim>\<open>v.replace(old, new)\<close>: only a \<^verbatim>\<open>str\<close> has the method\<close>
  "replace_any (YStr s) old new = Some (YStr (py_replace s old new))"
| "replace_any v old new = None"

definition video_entry :: "string \<Rightarrow> yaml \<Rightarrow> yaml list option" where
  \<comment> \<open>the body of the loop over \<^verbatim>\<open>medias.videos\<close>: what it appends\<close>
  "video_entry lang v = do {
     url \<leftarrow> py_get v ''url'' (YStr []);
     video_id \<leftarrow> extract_youtube_id_any url;
     if video_id \<noteq> [] then do {
       titre \<leftarrow> get_text v ''titre'' lang;
       Some [YDict [(''video_id'', YStr video_id), (''titre'', titre)]]
     } else Some []
   }"

definition decouverte_entry :: "string \<Rightarrow> yaml \<Rightarrow> yaml option" where
  \<comment> \<open>the body of the loop over \<^verbatim>\<open>medias.decouvertes\<close>: what it appends\<close>
  "decouverte_entry lang d = do {
     titre \<leftarrow> get_text d ''titre'' lang;
     annee \<leftarrow> py_get d ''annee'' (YStr []);
     url \<leftarrow> py_get d ''url'' (YStr []);
     Some (YDict [(''titre'', titre), (''annee'', annee), (''url'', url)])
   }"

definition sub_get :: "yaml \<Rightarrow> string \<Rightarrow> yaml \<Rightarrow> string \<Rightarrow> yaml \<Rightarrow> yaml option" where
  \<comment> \<open>\<^verbatim>\<open>config.get(k1, d1).get(k2, d2)\<close>\<close>
  "sub_get config k1 d1 k2 d2 = do { v \<leftarrow> py_get config k1 d1; py_get v k2 d2 }"

definition sub_text :: "yaml \<Rightarrow> string \<Rightarrow> string \<Rightarrow> string \<Rightarrow> yaml option" where
  \<comment> \<open>\<^verbatim>\<open>t(config.get(k1, {}), k2)\<close>\<close>
  "sub_text config k1 k2 lang = do { v \<leftarrow> py_get config k1 (YDict []); get_text v k2 lang }"

fun build_dict :: "(string \<times> yaml option) list \<Rightarrow> pydict option" where
  \<comment> \<open>a \<^verbatim>\<open>dict\<close> display: the values are evaluated in order, the first one that raises
      ends the evaluation\<close>
  "build_dict [] = Some []"
| "build_dict ((k, c) # es) =
     (case c of None \<Rightarrow> None
      | Some v \<Rightarrow> (case build_dict es of None \<Rightarrow> None | Some d \<Rightarrow> Some ((k, v) # d)))"

fun dict_set :: "pydict \<Rightarrow> string \<Rightarrow> yaml \<Rightarrow> pydict" where
  \<comment> \<open>\<^verbatim>\<open>d[key] = value\<close>: an existing key keeps its place\<close>
  "dict_set [] k v = [(k, v)]"
| "dict_set ((k', v') # d) k v = (if k' = k then (k, v) # d else (k', v') # dict_set d k v)"

definition footer_first :: "yaml \<Rightarrow> string \<Rightarrow> yaml option" where
  \<comment> \<open>the conditional expression of the \<^verbatim>\<open>footer_text\<close> entry of the display\<close>
  "footer_first config lang = do {
     f \<leftarrow> py_get config ''footer'' YNull;
     if is_dict f then do {
       f1 \<leftarrow> py_get config ''footer'' (YDict [(''fr'', YStr []), (''en'', YStr [])]);
       get_text f1 (if lang = ''fr'' then ''fr'' else ''en'') lang
     } else sub_get config ''footer'' (YDict []) lang (YStr [])
   }"

definition context_entries ::
  "yaml \<Rightarrow> string \<Rightarrow> (string \<times> string) list \<Rightarrow> yaml \<Rightarrow> yaml \<Rightarrow> (string \<times> yaml option) list" where
  \<comment> \<open>the entries of the display that builds \<^verbatim>\<open>context\<close>, in the order of the source\<close>
  "context_entries config lang labels videos decouvertes =
     [(''lang'', Some (YStr lang)),
      (''nom'', py_get config ''nom'' (YStr [])),
      (''titre'', get_text config ''titre'' lang),
      (''photo'', py_get config ''photo'' (YStr [])),
      (''css_path'', py_get config ''css_path'' (YStr [])),
      (''affiliation_inst'', sub_get config ''affiliation'' (YDict []) ''institution'' (YStr [])),
      (''affiliation_dept'', sub_text config ''affiliation'' ''departement'' lang),
      (''email'', sub_get config ''liens'' (YDict []) ''email'' (YStr [])),
      (''orcid'', sub_get config ''liens'' (YDict []) ''orcid'' (YStr [])),
      (''nav_recherche'', label labels ''recherche''),
      (''nav_medias'', label labels ''medias''),
      (''nav_oiseaux'', label labels ''oiseaux''),
      (''scroll_hint'', label labels ''scroll''),
      (''oiseaux_bouton'', label labels ''gallery''),
      (''intro'', Option.bind (get_text config ''intro'' lang) strip_any),
      (''recherche_titre'', sub_text config ''recherche'' ''titre'' lang),
      (''recherche_photo'', sub_get config ''recherche'' (YDict []) ''photo'' (YStr [])),
      (''recherche_contenu'',
         map_option YStr (Option.bind (sub_text config ''recherche'' ''contenu'' lang)
                            markdown_to_html_any)),
      (''medias_titre'', sub_text config ''medias'' ''titre'' lang),
      (''ads_url'', sub_get config ''medias'' (YDict []) ''ads_url'' (YStr [])),
      (''ads_texte'', sub_text config ''medias'' ''ads_texte'' lang),
      (''decouvertes_titre'', sub_text config ''medias'' ''decouvertes_titre'' lang),
      (''videos'', Some videos),
      (''decouvertes'', Some decouvertes),
      (''oiseaux_titre'', sub_text config ''oiseaux'' ''titre'' lang),
      (''oiseaux_photo'', sub_get config ''oiseaux'' (YDict []) ''photo'' (YStr [])),
      (''oiseaux_contenu'',
         map_option YStr (Option.bind (sub_text config ''oiseaux'' ''contenu'' lang)
                            markdown_to_html_any)),
      (''oiseaux_lien'',
         Option.bind (sub_get config ''liens'' (YDict []) ''galerie_oiseaux'' (YStr []))
           (\<lambda>g. replace_any g ''_fr'' (''_'' @ lang))),
      (''footer_text'', footer_first config lang)]"

definition build_context :: "yaml \<Rightarrow> string \<Rightarrow> pydict option" where
  "build_context config lang = do {
     labels \<leftarrow> Some (case map_of nav_labels lang of Some l \<Rightarrow> l
                      | None \<Rightarrow> (case map_of nav_labels ''fr'' of Some l \<Rightarrow> l | None \<Rightarrow> []));
     vs \<leftarrow> sub_get config ''medias'' (YDict []) ''videos'' (YList []);
     vs \<leftarrow> py_iter vs;
     videos \<leftarrow> those (map (video_entry lang) vs);
     ds \<leftarrow> sub_get config ''medias'' (YDict []) ''decouvertes'' (YList []);
     ds \<leftarrow> py_iter ds;
     decouvertes \<leftarrow> those (map (decouverte_entry lang) ds);
     context \<leftarrow> build_dict (context_entries config lang labels (YList (concat videos))
                              (YList decouvertes));
     footer \<leftarrow> py_get config ''footer'' (YDict []);
     Some (case footer of
             YDict f \<Rightarrow> dict_set context ''footer_text'' (dict_get f lang (dict_get f ''fr'' (YStr [])))
           | _ \<Rightarrow> context)
   }"

section \<open>Page generation\<close>

definition redirect_head :: "string list" where
  \<open>redirect_head =
     [''<!DOCTYPE html>'',
      ''<html>'',
      ''<head>'',
      ''    <meta charset="UTF-8">'',
      ''    <meta http-equiv="refresh" content="0; url=index_fr.html">'',
      ''    <script>'']\<close>

definition redirect_script_text :: "string list" where
  \<open>redirect_script_text =
     [''        const userLang = navigator.language || navigator.userLanguage;'',
      ''        const targetLang = userLang.startsWith('fr') ? 'fr' : 'en';'',
      ''        window.location.href = 'index_' + targetLang + '.html';'']\<close>

definition link_fr :: string where
  \<open>link_fr = ''<a href="index_fr.html">Fran'' @ [CHR 0xE7] @ ''ais</a>''\<close>

definition link_en :: string where
  \<open>link_en = ''<a href="index_en.html">English</a>''\<close>

definition redirect_tail :: "string list" where
  \<open>redirect_tail =
     [''    </script>'',
      ''</head>'',
      ''<body>'',
      ''    <p>Redirecting... '' @ link_fr @ '' | '' @ link_en @ ''</p>'',
      ''</body>'',
      ''</html>'']\<close>

definition redirect_html :: string where
  \<comment> \<open>the literal written to \<^verbatim>\<open>index.html\<close>, line by line\<close>
  "redirect_html = join [nl] (redirect_head @ redirect_script_text @ redirect_tail)"

text \<open>
  The script of the page, run by a browser: \<^verbatim>\<open>a || b\<close> is \<^verbatim>\<open>a\<close> unless \<^verbatim>\<open>a\<close> is undefined or
  the empty string; \<^verbatim>\<open>startsWith\<close> on an undefined value throws, and the script then sets
  no location (\<^const>\<open>None\<close>).
\<close>

definition js_or :: "string option \<Rightarrow> string option \<Rightarrow> string option" where
  "js_or a b = (case a of Some s \<Rightarrow> (if s \<noteq> [] then Some s else b) | None \<Rightarrow> b)"

definition redirect_script :: "string option \<Rightarrow> string option \<Rightarrow> string option" where
  \<comment> \<open>the value assigned to \<^verbatim>\<open>window.location.href\<close>, from \<^verbatim>\<open>navigator.language\<close> and
      \<^verbatim>\<open>navigator.userLanguage\<close>\<close>
  "redirect_script language userLanguage =
     (case js_or language userLanguage of
        None \<Rightarrow> None
      | Some userLang \<Rightarrow>
          (let targetLang = (if prefix ''fr'' userLang then ''fr'' else ''en'')
           in Some (''index_'' @ targetLang @ ''.html'')))"

fun write_pages :: "yaml \<Rightarrow> string \<Rightarrow> string list \<Rightarrow> (string \<times> string) list \<times> bool" where
  \<comment> \<open>the loop over the languages: the files written, and whether the loop ended
      without raising\<close>
  "write_pages config template [] = ([], True)"
| "write_pages config template (lang # langs) =
     (case Option.bind (build_context config lang) (render_template template) of
        None \<Rightarrow> ([], False)
      | Some html \<Rightarrow>
          (case write_pages config template langs of
             (files, ok) \<Rightarrow> ((''index_'' @ lang @ ''.html'', html) # files, ok)))"

definition generate_pages :: "yaml \<Rightarrow> string \<Rightarrow> (string \<times> string) list \<times> bool" where
  \<comment> \<open>\<^verbatim>\<open>generate_pages\<close> on the loaded document and template: the files written under the
      output directory, in order, and whether the run ended without raising\<close>
  "generate_pages config template =
     (case write_pages config template [''fr'', ''en''] of
        (files, ok) \<Rightarrow> if ok then (files @ [(''index.html'', redirect_html)], True)
                       else (files, False))"

section \<open>Notions used in the statements\<close>

definition lang_lookup :: "pydict \<Rightarrow> string \<Rightarrow> yaml" where
  \<comment> \<open>the bilingual rule in the words of the specification: the entry for the language,
      else the entry for \<^verbatim>\<open>fr\<close>, else the empty string\<close>
  "lang_lookup m lang =
     (case map_of m lang of Some v \<Rightarrow> v
      | None \<Rightarrow> (case map_of m ''fr'' of Some v \<Rightarrow> v | None \<Rightarrow> YStr []))"

definition context_value :: "yaml \<Rightarrow> string \<Rightarrow> string \<Rightarrow> yaml option" where
  \<comment> \<open>one entry of \<^verbatim>\<open>build_context(config, lang)\<close>\<close>
  "context_value config lang key = Option.bind (build_context config lang) (\<lambda>ctx. map_of ctx key)"



definition sample_doc :: yaml where
  \<comment> \<open>a document whose title and footer have no English text\<close>
  "sample_doc =
     YDict [(''titre'', YDict [(''fr'', YStr ''Bonjour'')]),
            (''footer'', YDict [(''fr'', YStr ''Pied'')])]"

fun replace_first :: "string \<Rightarrow> string \<Rightarrow> string \<Rightarrow> string" where
  \<comment> \<open>the replacement in the words of the specification: the first occurrence only\<close>
  "replace_first [] old new = (if old = [] then new else [])"
| "replace_first (c # cs) old new =
     (if prefix old (c # cs) then new @ drop (length old) (c # cs)
      else c # replace_first cs old new)"

definition gallery_doc :: yaml where
  \<comment> \<open>a document whose gallery address has \<^verbatim>\<open>_fr\<close> twice\<close>
  "gallery_doc =
     YDict [(''liens'', YDict [(''galerie_oiseaux'', YStr ''galerie_fr/index_fr.html'')])]"

definition spec_redirect :: "string \<Rightarrow> string" where
  \<comment> \<open>the redirection in the words of the specification: the French page unless the
      preferred language begins with \<^verbatim>\<open>en\<close>\<close>
  "spec_redirect userLang =
     (if prefix ''en'' userLang then ''index_en.html'' else ''index_fr.html'')"





section \<open>Properties of the string operations\<close>

lemma py_replace_Nil [simp]: "old \<noteq> [] \<Longrightarrow> py_replace [] old new = []"
  by (subst py_replace.simps) simp

lemma py_replace_prefix:
  "old \<noteq> [] \<Longrightarrow> prefix old s \<Longrightarrow> py_replace s old new = new @ py_replace (drop (length old) s) old new"
  by (subst py_replace.simps) simp

lemma py_replace_Cons:
  "old \<noteq> [] \<Longrightarrow> \<not> prefix old (c # cs) \<Longrightarrow> py_replace (c # cs) old new = c # py_replace cs old new"
  by (subst py_replace.simps) simp

lemma py_replace_append_old:
  "old \<noteq> [] \<Longrightarrow> py_replace (old @ s) old new = new @ py_replace s old new"
  by (simp add: py_replace_prefix)

lemma concat_singletons: "concat (map (\<lambda>c. [c]) s) = s"
  by (induction s) simp_all

lemma py_replace_empty: "py_replace s [] new = new @ concat (map (\<lambda>c. c # new) s)"
  by (subst py_replace.simps) simp

lemma py_replace_same: "py_replace s p p = s"
proof (cases "p = []")
  case True
  then show ?thesis by (simp add: py_replace_empty concat_singletons)
next
  case False
  show ?thesis
  proof (induction s rule: length_induct)
    case (1 s)
    show ?case
    proof (cases "prefix p s")
      case True
      then obtain r where r: "s = p @ r" by (auto simp: prefix_def)
      with False have "length r < length s" by simp
      with "1.IH" have "py_replace r p p = r" by blast
      with False r show ?thesis by (simp add: py_replace_append_old)
    next
      case np: False
      show ?thesis
      proof (cases s)
        case Nil
        with False show ?thesis by simp
      next
        case (Cons c cs)
        with "1.IH" have "py_replace cs p p = cs" by simp
        with False np Cons show ?thesis by (simp add: py_replace_Cons)
      qed
    qed
  qed
qed

lemma py_replace_skip:
  assumes "c0 \<notin> set p"
  shows "py_replace (p @ s) (c0 # rest) new = p @ py_replace s (c0 # rest) new"
  using assms
proof (induction p)
  case Nil
  then show ?case by simp
next
  case (Cons a p)
  then have "\<not> prefix (c0 # rest) (a # (p @ s))" by auto
  with Cons show ?case by (simp add: py_replace_Cons)
qed

lemma py_replace_join:
  assumes "\<forall>p\<in>set ps. c0 \<notin> set p"
  shows "py_replace (join (c0 # rest) ps) (c0 # rest) new = join new ps"
  using assms
proof (induction "c0 # rest" ps rule: join.induct)
  case 1
  then show ?case by simp
next
  case (2 p)
  then show ?case using py_replace_skip [of c0 p "[]" rest new] by simp
next
  case (3 p q ps)
  then have "py_replace (join (c0 # rest) (q # ps)) (c0 # rest) new = join new (q # ps)"
    by simp
  moreover from 3 have "c0 \<notin> set p" by simp
  ultimately show ?case
    using py_replace_append_old [of "c0 # rest" "join (c0 # rest) (q # ps)" new]
    by (simp add: py_replace_skip)
qed

section \<open>Properties of the scan\<close>

lemma lit_Some_iff: "lit p s = Some r \<longleftrightarrow> s = p @ r"
  by (induction p s rule: lit.induct) auto

lemma lit_append [simp]: "lit p (p @ r) = Some r"
  by (simp add: lit_Some_iff)

lemma lit_None_iff: "lit p s = None \<longleftrightarrow> \<not> prefix p s"
proof -
  have "lit p s \<noteq> None \<longleftrightarrow> prefix p s"
    by (auto simp: lit_Some_iff prefix_def)
  then show ?thesis by blast
qed

lemma re_scan_Nil: "pat [] = None \<Longrightarrow> re_scan pat [] = []"
  by (subst re_scan.simps) simp

lemma re_scan_Cons: "pat (c # cs) = None \<Longrightarrow> re_scan pat (c # cs) = Inl c # re_scan pat cs"
  by (subst re_scan.simps) simp

lemma re_scan_match:
  "pat s = Some (g, rest) \<Longrightarrow> length rest < length s \<Longrightarrow> re_scan pat s = Inr g # re_scan pat rest"
  by (subst re_scan.simps) simp

lemma re_scan_skip:
  assumes "\<And>i. i < length pre \<Longrightarrow> pat (drop i pre @ s) = None"
  shows "re_scan pat (pre @ s) = map Inl pre @ re_scan pat s"
  using assms
proof (induction pre)
  case Nil
  then show ?case by simp
next
  case (Cons c pre)
  from Cons.prems [of 0] have "pat (c # pre @ s) = None" by simp
  moreover have "re_scan pat (pre @ s) = map Inl pre @ re_scan pat s"
  proof (rule Cons.IH)
    fix i assume "i < length pre"
    with Cons.prems [of "Suc i"] show "pat (drop i pre @ s) = None" by simp
  qed
  ultimately show ?case by (simp add: re_scan_Cons)
qed

lemma re_scan_no_match:
  assumes "\<And>i. i \<le> length s \<Longrightarrow> pat (drop i s) = None"
  shows "re_scan pat s = map Inl s"
proof -
  have "re_scan pat (s @ []) = map Inl s @ re_scan pat []"
    by (rule re_scan_skip) (use assms in simp)
  moreover from assms [of "length s"] have "pat [] = None" by simp
  ultimately show ?thesis by (simp add: re_scan_Nil)
qed

lemma those_map_Inl:
  "those (map (\<lambda>c. Some [c]) pre @ ys) =
     map_option (\<lambda>zs. map (\<lambda>c. [c]) pre @ zs) (those ys)"
  by (induction pre) (simp_all add: option.map_comp comp_def option.map_ident split: option.splits)

lemma re_sub_opt_skip:
  assumes "\<And>i. i < length pre \<Longrightarrow> pat (drop i pre @ s) = None"
  shows "re_sub_opt pat repl (pre @ s) = map_option (\<lambda>t. pre @ t) (re_sub_opt pat repl s)"
  by (simp add: re_sub_opt_def re_scan_skip [where pre=pre and pat=pat and s=s, OF assms] those_map_Inl option.map_comp comp_def
      concat_singletons)

lemma re_sub_opt_match:
  assumes "pat s = Some (g, rest)" and "length rest < length s"
  shows "re_sub_opt pat repl s =
           (case repl g of None \<Rightarrow> None
            | Some r \<Rightarrow> map_option (\<lambda>t. r @ t) (re_sub_opt pat repl rest))"
  by (simp add: re_sub_opt_def re_scan_match [where pat=pat and s=s and g=g and rest=rest, OF assms] option.map_comp comp_def
      split: option.splits)

lemma re_sub_opt_no_match:
  assumes "\<And>i. i \<le> length s \<Longrightarrow> pat (drop i s) = None"
  shows "re_sub_opt pat repl s = Some s"
proof -
  have "re_sub_opt pat repl (s @ []) = map_option (\<lambda>t. s @ t) (re_sub_opt pat repl [])"
    by (rule re_sub_opt_skip) (use assms in simp)
  moreover from assms [of "length s"] have "re_sub_opt pat repl [] = Some []"
    by (simp add: re_sub_opt_def re_scan_Nil)
  ultimately show ?thesis by simp
qed

lemma re_sub_skip:
  assumes "\<And>i. i < length pre \<Longrightarrow> pat (drop i pre @ s) = None"
  shows "re_sub pat repl (pre @ s) = pre @ re_sub pat repl s"
  by (simp add: re_sub_def re_scan_skip [where pre=pre and pat=pat and s=s, OF assms] comp_def concat_singletons)

lemma re_sub_no_match:
  assumes "\<And>i. i \<le> length s \<Longrightarrow> pat (drop i s) = None"
  shows "re_sub pat repl s = s"
  by (simp add: re_sub_def re_scan_no_match [where pat=pat and s=s, OF assms] comp_def concat_singletons)

lemma re_sub_match:
  assumes "pat s = Some (g, rest)" and "length rest < length s"
  shows "re_sub pat repl s = repl g @ re_sub pat repl rest"
  by (simp add: re_sub_def re_scan_match [where pat=pat and s=s and g=g and rest=rest, OF assms])

lemma for_pattern_prefix: "\<not> prefix ''{%'' s \<Longrightarrow> for_pattern s = None"
  by (simp add: for_pattern_def lit_None_iff [symmetric])

lemma for_close_prefix: "\<not> prefix ''{%'' s \<Longrightarrow> for_close s = None"
  by (simp add: for_close_def lit_None_iff [symmetric])

lemma cond_pattern_prefix: "\<not> prefix ''{{'' s \<Longrightarrow> cond_pattern s = None"
  by (simp add: cond_pattern_def lit_None_iff [symmetric])

lemma drop_prefix_sublist: "prefix p (drop i s) \<Longrightarrow> sublist p s"
  by (metis append_take_drop_id prefix_def sublist_appendI)

lemma no_open_tag:
  assumes "\<not> sublist ''{%'' s"
  shows "for_pattern (drop i s) = None" and "for_close (drop i s) = None"
  using assms drop_prefix_sublist [of "''{%''" i s]
  by (auto intro: for_pattern_prefix for_close_prefix)

section \<open>Properties of the context builder\<close>

lemmas build_defs = build_context_def context_entries_def footer_first_def get_text_def
  dict_get_def sub_get_def sub_text_def nav_labels_def label_def markdown_to_html_def

lemma build_dict_map_of:
  "build_dict es = Some d \<Longrightarrow> map_of es k = Some c \<Longrightarrow> \<exists>v. c = Some v \<and> map_of d k = Some v"
proof (induction es arbitrary: d)
  case Nil
  then show ?case by simp
next
  case (Cons e es)
  obtain k' c' where e: "e = (k', c')" by (cases e)
  from Cons.prems(1) e obtain v d' where c: "c' = Some v" and d': "build_dict es = Some d'"
    and d: "d = (k', v) # d'"
    by (auto split: option.splits)
  show ?case
  proof (cases "k = k'")
    case True
    with Cons.prems(2) e c d show ?thesis by auto
  next
    case False
    with Cons.prems(2) e have "map_of es k = Some c" by simp
    from Cons.IH [OF d' this] False d show ?thesis by simp
  qed
qed

lemma map_of_dict_set:
  "map_of (dict_set d k v) k' = (if k' = k then Some v else map_of d k')"
  by (induction d) auto

lemma build_context_SomeD:
  assumes "build_context config lang = Some ctx"
  shows "\<exists>d labels videos decouvertes cx.
    config = YDict d \<and>
    build_dict (context_entries config lang labels videos decouvertes) = Some cx \<and>
    ctx = (case dict_get d ''footer'' (YDict []) of
              YDict f \<Rightarrow> dict_set cx ''footer_text''
                           (dict_get f lang (dict_get f ''fr'' (YStr [])))
            | _ \<Rightarrow> cx)"
proof -
  from assms obtain d where d: "config = YDict d"
    by (cases config) (simp_all add: build_context_def sub_get_def)
  with assms show ?thesis
    by (auto simp: build_context_def split: Option.bind_splits)
qed

lemma dict_get_lang_lookup: "dict_get m lang (dict_get m ''fr'' (YStr [])) = lang_lookup m lang"
  by (simp add: dict_get_def lang_lookup_def split: option.splits)

lemma context_lookup:
  assumes "build_context config lang = Some ctx" and "k \<noteq> ''footer_text''"
    and "\<And>labels videos decouvertes.
           map_of (context_entries config lang labels videos decouvertes) k = Some c"
  shows "\<exists>v. c = Some v \<and> map_of ctx k = Some v"
proof -
  from build_context_SomeD [OF assms(1)] obtain d labels videos decouvertes cx where
    b: "build_dict (context_entries config lang labels videos decouvertes) = Some cx"
    and c: "ctx = (case dict_get d ''footer'' (YDict []) of
              YDict f \<Rightarrow> dict_set cx ''footer_text''
                           (dict_get f lang (dict_get f ''fr'' (YStr [])))
            | _ \<Rightarrow> cx)"
    by blast
  from c assms(2) have "map_of ctx k = map_of cx k"
    by (simp add: map_of_dict_set split: yaml.splits)
  with build_dict_map_of [OF b assms(3)] show ?thesis by simp
qed






lemma sample_doc_builds: "\<exists>ctx. build_context sample_doc ''en'' = Some ctx"
proof -
  have "build_context sample_doc ''en'' \<noteq> None"
    by (simp add: sample_doc_def build_defs py_replace.simps)
  then show ?thesis by (simp only: not_None_eq)
qed



text \<open>
  Claim C4. Whenever \<^verbatim>\<open>build_context(config, lang)\<close> returns, the footer of the document is
  absent or a mapping, and \<^verbatim>\<open>footer_text\<close> is the direct lookup on it: the entry for
  \<^verbatim>\<open>lang\<close>, else the entry for \<^verbatim>\<open>fr\<close>, else the empty string. The value of the first
  computation (\<^const>\<open>footer_first\<close>) is overwritten; the witness is a footer with no
  English text, where the first computation gives the empty string and the context has the
  French text.
\<close>

theorem footer_text_final:
  assumes "build_context config lang = Some ctx"
  shows "\<exists>d. config = YDict d \<and>
           ((map_of d ''footer'' = None \<and> map_of ctx ''footer_text'' = Some (YStr [])) \<or>
            (\<exists>f. map_of d ''footer'' = Some (YDict f) \<and>
                 map_of ctx ''footer_text'' = Some (lang_lookup f lang)))"
proof -
  from build_context_SomeD [OF assms] obtain d labels videos decouvertes cx where
    d: "config = YDict d"
    and b: "build_dict (context_entries config lang labels videos decouvertes) = Some cx"
    and c: "ctx = (case dict_get d ''footer'' (YDict []) of
              YDict f \<Rightarrow> dict_set cx ''footer_text''
                           (dict_get f lang (dict_get f ''fr'' (YStr [])))
            | _ \<Rightarrow> cx)"
    by blast
  have e: "map_of (context_entries config lang labels videos decouvertes) ''footer_text'' =
             Some (footer_first config lang)"
    by (simp add: context_entries_def)
  from build_dict_map_of [OF b e] obtain v where v: "footer_first config lang = Some v"
    by blast
  show ?thesis
  proof (cases "map_of d ''footer''")
    case None
    with c show ?thesis
      by (simp add: d dict_get_def map_of_dict_set)
  next
    case (Some fv)
    show ?thesis
    proof (cases fv)
      case (YDict f)
      with Some c show ?thesis
        by (simp add: d dict_get_def map_of_dict_set dict_get_lang_lookup [unfolded dict_get_def])
    qed (use Some v d in \<open>simp_all add: footer_first_def sub_get_def dict_get_def\<close>)
  qed
qed

theorem footer_text_final_witness:
  "context_value sample_doc ''en'' ''footer_text'' = Some (YStr ''Pied'') \<and>
   footer_first sample_doc ''en'' = Some (YStr [])"
proof -
  from sample_doc_builds obtain ctx where ctx: "build_context sample_doc ''en'' = Some ctx"
    by blast
  from footer_text_final [OF ctx] obtain d where d: "sample_doc = YDict d"
    and f: "(map_of d ''footer'' = None \<and> map_of ctx ''footer_text'' = Some (YStr [])) \<or>
            (\<exists>f. map_of d ''footer'' = Some (YDict f) \<and>
                 map_of ctx ''footer_text'' = Some (lang_lookup f ''en''))"
    by blast
  from d have "d = [(''titre'', YDict [(''fr'', YStr ''Bonjour'')]),
                    (''footer'', YDict [(''fr'', YStr ''Pied'')])]"
    by (simp add: sample_doc_def)
  with f have "map_of ctx ''footer_text'' = Some (YStr ''Pied'')"
    by (simp add: lang_lookup_def)
  with ctx have "context_value sample_doc ''en'' ''footer_text'' = Some (YStr ''Pied'')"
    by (simp add: context_value_def)
  moreover have "footer_first sample_doc ''en'' = Some (YStr [])"
    by (simp add: sample_doc_def build_defs)
  ultimately show ?thesis by simp
qed

lemma entry_oiseaux_lien:
  "map_of (context_entries config lang labels videos decouvertes) ''oiseaux_lien'' =
     Some (Option.bind (sub_get config ''liens'' (YDict []) ''galerie_oiseaux'' (YStr []))
           (\<lambda>g. replace_any g ''_fr'' (''_'' @ lang)))"
  by (simp add: context_entries_def)

text \<open>
  Claim C1, as the code has it. Whenever \<^verbatim>\<open>build_context(config, lang)\<close> returns and
  \<^verbatim>\<open>liens.galerie_oiseaux\<close> is a string, \<^verbatim>\<open>oiseaux_lien\<close> is that string with every occurrence
  of \<^verbatim>\<open>_fr\<close> replaced by \<^verbatim>\<open>_<lang>\<close>, leftmost first and without overlap; for \<^verbatim>\<open>lang = fr\<close>
  it is the string itself. In particular an address whose underscores all belong to
  occurrences of \<^verbatim>\<open>_fr\<close> has each of them replaced.
\<close>

theorem oiseaux_lien_every_occurrence:
  assumes "build_context (YDict d) lang = Some ctx"
    and "map_of d ''liens'' = Some (YDict l)"
    and "map_of l ''galerie_oiseaux'' = Some (YStr url)"
  shows "map_of ctx ''oiseaux_lien'' = Some (YStr (py_replace url ''_fr'' (''_'' @ lang))) \<and>
         (lang = ''fr'' \<longrightarrow> map_of ctx ''oiseaux_lien'' = Some (YStr url)) \<and>
         (\<forall>ps. url = join ''_fr'' ps \<and> (\<forall>p\<in>set ps. CHR ''_'' \<notin> set p) \<longrightarrow>
               map_of ctx ''oiseaux_lien'' = Some (YStr (join (''_'' @ lang) ps)))"
proof -
  have k: "''oiseaux_lien'' \<noteq> ''footer_text''" by simp
  from context_lookup [OF assms(1) k entry_oiseaux_lien] assms(2,3)
  have v: "map_of ctx ''oiseaux_lien'' = Some (YStr (py_replace url ''_fr'' (''_'' @ lang)))"
    by (auto simp: sub_get_def dict_get_def)
  moreover have "lang = ''fr'' \<longrightarrow> py_replace url ''_fr'' (''_'' @ lang) = url"
    by (simp add: py_replace_same)
  moreover have "\<forall>ps. url = join ''_fr'' ps \<and> (\<forall>p\<in>set ps. CHR ''_'' \<notin> set p) \<longrightarrow>
               py_replace url ''_fr'' (''_'' @ lang) = join (''_'' @ lang) ps"
    using py_replace_join [of _ "CHR ''_''" "''fr''"] by simp
  ultimately show ?thesis by simp
qed

lemma gallery_doc_en:
  "build_context gallery_doc ''en'' \<noteq> None"
  by (simp add: gallery_doc_def build_defs py_replace.simps)

theorem oiseaux_lien_every_occurrence_witness:
  "context_value gallery_doc ''en'' ''oiseaux_lien'' = Some (YStr ''galerie_en/index_en.html'')"
proof -
  from gallery_doc_en obtain ctx where ctx: "build_context gallery_doc ''en'' = Some ctx"
    by (auto simp only: not_None_eq)
  define l where "l = [(''galerie_oiseaux'', YStr ''galerie_fr/index_fr.html'')]"
  define d where "d = [(''liens'', YDict l)]"
  have g: "gallery_doc = YDict d" by (simp add: gallery_doc_def d_def l_def)
  have a: "map_of d ''liens'' = Some (YDict l)" by (simp add: d_def)
  have b: "map_of l ''galerie_oiseaux'' = Some (YStr ''galerie_fr/index_fr.html'')"
    by (simp add: l_def)
  have j: "''galerie_fr/index_fr.html'' = join ''_fr'' [''galerie'', ''/index'', ''.html'']"
    by simp
  have n: "\<forall>p\<in>set [''galerie'', ''/index'', ''.html'']. CHR ''_'' \<notin> set p"
    by simp
  from oiseaux_lien_every_occurrence [OF ctx [unfolded g] a b] j n
  have "map_of ctx ''oiseaux_lien'' = Some (YStr (join (''_'' @ ''en'') [''galerie'', ''/index'', ''.html'']))"
    by blast
  with ctx show ?thesis by (simp add: context_value_def)
qed

text \<open>
  Claim C1, as the specification states it, fails: with the address
  \<^verbatim>\<open>galerie_fr/index_fr.html\<close> and \<^verbatim>\<open>lang = en\<close> the context has both occurrences replaced,
  where replacing the first occurrence only would leave the second.
\<close>

theorem oiseaux_lien_first_only_counterexample:
  "context_value gallery_doc ''en'' ''oiseaux_lien'' = Some (YStr ''galerie_en/index_en.html'') \<and>
   replace_first ''galerie_fr/index_fr.html'' ''_fr'' ''_en'' = ''galerie_en/index_fr.html''"
  by (simp add: context_value_def gallery_doc_def build_defs py_replace.simps)


section \<open>Properties of the generated pages\<close>

lemma redirect_html_link_fr:
  "redirect_html =
     (join [nl] (redirect_head @ redirect_script_text @ take 3 redirect_tail) @ [nl]
        @ ''    <p>Redirecting... '')
     @ link_fr @ ('' | '' @ link_en @ ''</p>'' @ [nl] @ ''</body>'' @ [nl] @ ''</html>'')"
  by (simp add: redirect_html_def redirect_head_def redirect_script_text_def redirect_tail_def)

lemma redirect_html_link_en:
  "redirect_html =
     (join [nl] (redirect_head @ redirect_script_text @ take 3 redirect_tail) @ [nl]
        @ ''    <p>Redirecting... '' @ link_fr @ '' | '')
     @ link_en @ (''</p>'' @ [nl] @ ''</body>'' @ [nl] @ ''</html>'')"
  by (simp add: redirect_html_def redirect_head_def redirect_script_text_def redirect_tail_def)

lemma redirect_html_script:
  "redirect_html =
     (join [nl] redirect_head @ [nl]) @ join [nl] redirect_script_text
       @ ([nl] @ join [nl] redirect_tail)"
  by (simp add: redirect_html_def redirect_head_def redirect_script_text_def redirect_tail_def)

lemma write_pages_ok:
  "write_pages config template langs = (files, True) \<Longrightarrow> length files = length langs"
  by (induction langs arbitrary: files) (auto split: option.splits prod.splits)

lemma render_template_no_loop:
  assumes "\<not> sublist ''{%'' template"
  shows "render_template template ctx =
           Some (replace_vars ctx (re_sub cond_pattern (replace_cond ctx) template))"
proof -
  have "re_sub_opt for_pattern (replace_for ctx) template = Some template"
    by (rule re_sub_opt_no_match) (rule no_open_tag(1) [OF assms])
  then show ?thesis by (simp add: render_template_def)
qed

text \<open>
  Claim C3, as the code has it. The script of \<^verbatim>\<open>index.html\<close> sends a browser whose
  preferred language begins with \<^verbatim>\<open>fr\<close> to the French page and every other one to the
  English page; the page holds that script and a link to each of \<^verbatim>\<open>index_fr.html\<close> and
  \<^verbatim>\<open>index_en.html\<close>, and it is the last file a run that ends without raising writes.
\<close>

theorem redirect_by_fr_prefix:
  "(userLang \<noteq> [] \<longrightarrow>
      redirect_script (Some userLang) other =
        Some (if prefix ''fr'' userLang then ''index_fr.html'' else ''index_en.html'')) \<and>
   sublist (join [nl] redirect_script_text) redirect_html \<and>
   sublist link_fr redirect_html \<and> sublist link_en redirect_html \<and>
   (snd (generate_pages config template) \<longrightarrow>
      last (fst (generate_pages config template)) = (''index.html'', redirect_html))"
proof -
  have "sublist (join [nl] redirect_script_text) redirect_html"
    unfolding sublist_def using redirect_html_script by blast
  moreover have "sublist link_fr redirect_html"
    unfolding sublist_def using redirect_html_link_fr by blast
  moreover have "sublist link_en redirect_html"
    unfolding sublist_def using redirect_html_link_en by blast
  moreover have "snd (generate_pages config template) \<longrightarrow>
      last (fst (generate_pages config template)) = (''index.html'', redirect_html)"
    by (simp add: generate_pages_def split: prod.splits)
  ultimately show ?thesis
    by (simp add: redirect_script_def js_or_def)
qed

theorem redirect_by_fr_prefix_witness:
  "redirect_script (Some ''en-US'') None = Some ''index_en.html'' \<and>
   redirect_script (Some ''fr-CA'') None = Some ''index_fr.html'' \<and>
   redirect_script (Some ''de'') None = Some ''index_en.html'' \<and>
   snd (generate_pages sample_doc ''<title>{{ titre }}</title>'') \<and>
   last (fst (generate_pages sample_doc ''<title>{{ titre }}</title>'')) = (''index.html'', redirect_html)"
proof -
  have g: "snd (generate_pages sample_doc ''<title>{{ titre }}</title>'')"
  proof -
    have t: "\<not> sublist ''{%'' ''<title>{{ titre }}</title>''"
      by (simp add: sublist_code)
    have "build_context sample_doc ''fr'' \<noteq> None"
      by (simp add: sample_doc_def build_defs py_replace.simps)
    moreover have "build_context sample_doc ''en'' \<noteq> None"
      by (simp add: sample_doc_def build_defs py_replace.simps)
    ultimately show ?thesis
      by (auto simp: generate_pages_def render_template_no_loop [OF t] split: prod.splits)
  qed
  from redirect_by_fr_prefix [of "''en-US''" None sample_doc "''<title>{{ titre }}</title>''"]
    redirect_by_fr_prefix [of "''fr-CA''" None sample_doc "''<title>{{ titre }}</title>''"]
    redirect_by_fr_prefix [of "''de''" None sample_doc "''<title>{{ titre }}</title>''"] g
  show ?thesis by simp
qed

text \<open>
  Claim C3, as the specification states it, fails: a browser whose preferred language is
  \<^verbatim>\<open>de\<close> is sent to the English page, not to the French one.
\<close>

theorem redirect_unless_en_counterexample:
  "redirect_script (Some ''de'') None = Some ''index_en.html'' \<and>
   spec_redirect ''de'' = ''index_fr.html''"
  by (simp add: redirect_script_def js_or_def spec_redirect_def)

section \<open>Properties of the Markdown converter\<close>
















end
